theory Spec2Isabelle
  imports Complex_Main "HOL-Library.Char_ord" "HOL-Library.List_Lexorder"
begin

section \<open>Python values\<close>

text \<open>
  The JSON scalars and data-frame cells that reach the program: \<open>None\<close>, the float NaN
  (the missing-value marker of a data frame), the two infinite floats (\<open>PInf True\<close> is
  the positive one), finite numbers and strings. A finite number is its exact rational
  value: Python compares an \<open>int\<close> and a \<open>float\<close> numerically, and \<open>round(x, 1)\<close> rounds
  the exact value of the float.
\<close>

datatype pyval = PNone | PNaN | PInf bool | PNum rat | PStr string

datatype py_error =
    KeyError string
  | ValueError
  | TypeError
  | OverflowError
  | ZeroDivisionError
  | RequestException string

text \<open>
  \<open>str(e)\<close>, the text an error message quotes. The texts given for \<open>ValueError\<close> and
  \<open>TypeError\<close> stand for the interpreter's; no message of the program quotes them, since
  both are caught without being shown.
\<close>

fun str_error :: "py_error \<Rightarrow> string" where
  "str_error (KeyError k) = CHR 0x27 # k @ [CHR 0x27]"
| "str_error ZeroDivisionError = ''division by zero''"
| "str_error (RequestException msg) = msg"
| "str_error OverflowError = ''cannot convert float infinity to integer''"
| "str_error ValueError = ''invalid literal for int() with base 10''"
| "str_error TypeError = ''unsupported operand type''"

type_synonym pydict = "(string \<times> pyval) list"

text \<open>\<open>d.get(k, default)\<close> on a dictionary held as an association list.\<close>

definition dict_get :: "pydict \<Rightarrow> string \<Rightarrow> pyval \<Rightarrow> pyval" where
  "dict_get d k dflt = (case map_of d k of None \<Rightarrow> dflt | Some v \<Rightarrow> v)"

text \<open>\<open>d[k]\<close>, which raises \<open>KeyError\<close> on a missing key.\<close>

definition dict_item :: "pydict \<Rightarrow> string \<Rightarrow> py_error + pyval" where
  "dict_item d k = (case map_of d k of None \<Rightarrow> Inl (KeyError k) | Some v \<Rightarrow> Inr v)"

text \<open>
  \<open>v <= n\<close> for an integer literal \<open>n\<close>: a \<open>TypeError\<close> unless \<open>v\<close> is a number; every
  comparison with NaN is false.
\<close>

fun py_le_int :: "pyval \<Rightarrow> int \<Rightarrow> py_error + bool" where
  "py_le_int (PNum r) n = Inr (r \<le> of_int n)"
| "py_le_int PNaN n = Inr False"
| "py_le_int (PInf positive) n = Inr (\<not> positive)"
| "py_le_int PNone n = Inl TypeError"
| "py_le_int (PStr s) n = Inl TypeError"

text \<open>
  Rounding to the nearest integer with ties to the even neighbour, and \<open>round(v, 1)\<close>
  built on it: the closest multiple of one tenth. NaN and the infinite floats are
  returned as they are.
\<close>

definition round_half_even :: "rat \<Rightarrow> int" where
  "round_half_even x =
     (let f = \<lfloor>x\<rfloor>; d = x - of_int f
      in if d < 1 / 2 then f
         else if 1 / 2 < d then f + 1
         else if even f then f else f + 1)"

fun py_round1 :: "pyval \<Rightarrow> py_error + pyval" where
  "py_round1 (PNum r) = Inr (PNum (of_int (round_half_even (r * 10)) / 10))"
| "py_round1 PNaN = Inr PNaN"
| "py_round1 (PInf positive) = Inr (PInf positive)"
| "py_round1 PNone = Inl TypeError"
| "py_round1 (PStr s) = Inl TypeError"

section \<open>The eligibility predicate\<close>

text \<open>
  \<open>check_minors_eligibility(stats, is_pitcher)\<close> returns the pair
  \<open>(is_eligible, current_total)\<close>; the comparison raises on a non-numeric total.
\<close>

definition check_minors_eligibility :: "pydict \<Rightarrow> bool \<Rightarrow> py_error + (bool \<times> pyval)" where
  "check_minors_eligibility stats is_pitcher =
     (if is_pitcher then
        (let current_ip = dict_get stats ''career_IP'' (PNum 0)
         in case py_le_int current_ip 50 of
              Inl e \<Rightarrow> Inl e
            | Inr b \<Rightarrow> Inr (b, current_ip))
      else
        (let current_ab = dict_get stats ''career_AB'' (PNum 0)
         in case py_le_int current_ab 130 of
              Inl e \<Rightarrow> Inl e
            | Inr b \<Rightarrow> Inr (b, current_ab)))"

section \<open>Integers and text\<close>

text \<open>\<open>str(n)\<close> for an integer, as an f-string renders it.\<close>

fun str_nat :: "nat \<Rightarrow> string" where
  "str_nat n =
     (if n < 10 then [''0123456789'' ! n]
      else str_nat (n div 10) @ [''0123456789'' ! (n mod 10)])"

definition str_int :: "int \<Rightarrow> string" where
  "str_int i = (if i < 0 then CHR ''-'' # str_nat (nat (- i)) else str_nat (nat i))"

text \<open>
  \<open>int(s)\<close> for a string of ASCII characters: the string is stripped of the white space
  of the C locale (tab to carriage return, and the blank), may carry one sign, and must
  then be decimal digits, where single underscores may separate digits; anything else is
  a \<open>ValueError\<close>.
\<close>

definition is_py_space :: "char \<Rightarrow> bool" where
  "is_py_space c = ((of_char c :: nat) \<in> set [9, 10, 11, 12, 13, 32])"

definition py_strip :: "string \<Rightarrow> string" where
  "py_strip s = rev (dropWhile is_py_space (rev (dropWhile is_py_space s)))"

definition is_py_digit :: "char \<Rightarrow> bool" where
  "is_py_digit c = (48 \<le> (of_char c :: nat) \<and> (of_char c :: nat) \<le> 57)"

definition digit_val :: "char \<Rightarrow> nat" where
  "digit_val c = of_char c - 48"

fun parse_digits :: "string \<Rightarrow> nat \<Rightarrow> nat option" where
  "parse_digits [] acc = None"
| "parse_digits [c] acc = (if is_py_digit c then Some (acc * 10 + digit_val c) else None)"
| "parse_digits (c # d # ds) acc =
     (if is_py_digit c then
        (if d = CHR ''_'' then parse_digits ds (acc * 10 + digit_val c)
         else parse_digits (d # ds) (acc * 10 + digit_val c))
      else None)"

definition parse_int :: "string \<Rightarrow> int option" where
  "parse_int s =
     (case py_strip s of
        [] \<Rightarrow> None
      | c # cs \<Rightarrow>
          if c = CHR ''-'' then map_option (\<lambda>n. - int n) (parse_digits cs 0)
          else if c = CHR ''+'' then map_option int (parse_digits cs 0)
          else map_option int (parse_digits (c # cs) 0))"

text \<open>
  Strings are byte strings (UTF-8). Which characters beyond ASCII count as decimal digits
  or as white space is decided by the Unicode tables of the interpreter, and the longest
  digit string \<open>int\<close> accepts by its version (4300 digits where a limit exists). So what
  \<open>int\<close> gives for a string that holds a byte above 127 or is longer than 4300 bytes is a
  parameter \<open>ext\<close> of the model (\<open>None\<close> for a \<open>ValueError\<close>); all other strings are
  parsed as above.
\<close>

definition plain_ascii :: "string \<Rightarrow> bool" where
  "plain_ascii s = (list_all (\<lambda>c. (of_char c :: nat) < 128) s \<and> length s \<le> 4300)"

text \<open>
  \<open>int(v)\<close>. A finite number is truncated towards zero; NaN is a \<open>ValueError\<close>, an
  infinite float an \<open>OverflowError\<close>, \<open>None\<close> a \<open>TypeError\<close>.
\<close>

fun py_int :: "(string \<Rightarrow> int option) \<Rightarrow> pyval \<Rightarrow> py_error + int" where
  "py_int ext (PNum r) = Inr (if 0 \<le> r then \<lfloor>r\<rfloor> else \<lceil>r\<rceil>)"
| "py_int ext (PStr s) =
     (case (if plain_ascii s then parse_int s else ext s) of
        None \<Rightarrow> Inl ValueError
      | Some n \<Rightarrow> Inr n)"
| "py_int ext PNaN = Inl ValueError"
| "py_int ext (PInf positive) = Inl OverflowError"
| "py_int ext PNone = Inl TypeError"

section \<open>Rosters, mapping table, statistics indexes\<close>

text \<open>
  A roster item and a team as the roster feed delivers them; the fields are the ones the
  program reads, and every item and team is taken to carry them. The teams of a response
  form an association list in the order received, which is the order \<open>.items()\<close>
  iterates in.
\<close>

record roster_item =
  player_id :: string
  status :: string
  position :: string

record team_data =
  teamName :: string
  rosterItems :: "roster_item list"

text \<open>
  The decoded roster response: \<open>rosters_key\<close> is the value under the top-level key
  \<open>rosters\<close>, absent when the response has no such key; \<open>other_keys\<close> are the remaining
  top-level keys (a response with no key at all is the empty dictionary, which is falsy).
\<close>

record fantrax_response =
  rosters_key :: "(string \<times> team_data) list option"
  other_keys :: "string list"

text \<open>One row of the mapping table, with the three columns the program reads.\<close>

record mapping_row =
  Fantrax_ID :: string
  IDFANGRAPHS :: pyval
  FANTRAXNAME :: string

text \<open>A statistics index: provider id to the stats record stored for it.\<close>

type_synonym stats_index = "pyval \<rightharpoonup> pydict"

text \<open>\<open>index.get(fangraphs_id, {})\<close> with an integer key.\<close>

definition index_get :: "stats_index \<Rightarrow> int \<Rightarrow> pydict" where
  "index_get idx n = (case idx (PNum (of_int n)) of None \<Rightarrow> [] | Some s \<Rightarrow> s)"

record violation =
  Player :: string
  Position :: string
  Team :: string
  Current_Total :: pyval
  Threshold :: string

text \<open>
  What the program shows on the page, in order. Pictographs in the literal texts of the
  source are left out of the strings; spinners, progress bars, the download button and
  the chart are not modelled.
\<close>

datatype ui_event =
    StError string
  | StWarning string
  | StText string
  | StSubheader string
  | StSuccess string
  | StMetric string nat
  | StDataframe "violation list"

section \<open>Reconciliation\<close>

text \<open>
  The two accumulators of \<open>find_ineligible_minors\<close> and the errors it shows while it
  runs.
\<close>

record fim_state =
  ineligible_players :: "violation list"
  missing_players :: "string set"
  shown :: "ui_event list"

definition fim_init :: fim_state where
  "fim_init = \<lparr>ineligible_players = [], missing_players = {}, shown = []\<rparr>"

text \<open>
  \<open>pd.isna(v)\<close> on a scalar, and the test \<open>pd.isna(v) or v == '' or v is None\<close> on the
  provider-id cell.
\<close>

definition pd_isna :: "pyval \<Rightarrow> bool" where
  "pd_isna v = (v = PNaN \<or> v = PNone)"

definition id_is_missing :: "pyval \<Rightarrow> bool" where
  "id_is_missing v = (pd_isna v \<or> v = PStr [] \<or> v = PNone)"

text \<open>
  The body of the inner \<open>try\<close> once \<open>int(fangraphs_id_raw)\<close> has given \<open>fangraphs_id\<close>:
  classification, index lookup, predicate, and the record appended for an ineligible
  player. An exception raised on the way is the \<open>Inl\<close> result.
\<close>

definition evaluate_stats ::
  "string \<Rightarrow> stats_index \<Rightarrow> stats_index \<Rightarrow> roster_item \<Rightarrow> string \<Rightarrow> int \<Rightarrow>
   fim_state \<Rightarrow> py_error + fim_state" where
  "evaluate_stats team_name batting_stats pitching_stats player player_name fangraphs_id st =
     (let is_pitcher = (position player \<in> set [''SP'', ''RP'', ''P'']);
          stats = (if is_pitcher then index_get pitching_stats fangraphs_id
                   else index_get batting_stats fangraphs_id)
      in if stats = [] then
           Inr (st\<lparr>missing_players :=
                  insert (''No stats for '' @ player_name
                          @ '' (FG ID: '' @ str_int fangraphs_id @ '')'')
                    (missing_players st)\<rparr>)
         else
           (case check_minors_eligibility stats is_pitcher of
              Inl e \<Rightarrow> Inl e
            | Inr (is_eligible, current_total) \<Rightarrow>
                if \<not> is_eligible then
                  (case py_round1 current_total of
                     Inl e \<Rightarrow> Inl e
                   | Inr rounded \<Rightarrow>
                       Inr (st\<lparr>ineligible_players :=
                              ineligible_players st @
                              [\<lparr>Player = player_name,
                                Position = position player,
                                Team = team_name,
                                Current_Total = rounded,
                                Threshold = (if is_pitcher then ''50 IP''
                                             else ''130 AB'')\<rparr>]\<rparr>))
                else Inr st))"

text \<open>
  The body of the loop for one roster item. The inner handler
  \<open>except (ValueError, TypeError)\<close> passes the item over without a trace; any other
  exception reaches the outer handler, which shows an error and goes on.
\<close>

definition process_player ::
  "(string \<Rightarrow> int option) \<Rightarrow> string \<Rightarrow> mapping_row list \<Rightarrow> stats_index \<Rightarrow> stats_index \<Rightarrow>
   roster_item \<Rightarrow> fim_state \<Rightarrow> fim_state" where
  "process_player ext team_name id_mapping batting_stats pitching_stats player st =
     (if status player = ''MINORS'' then
        (let fantrax_id = player_id player;
             player_row = filter (\<lambda>r. Fantrax_ID r = fantrax_id) id_mapping
         in case player_row of
              [] \<Rightarrow>
                st\<lparr>missing_players :=
                     insert (''Missing FanGraphs ID mapping for Fantrax ID: '' @ fantrax_id)
                       (missing_players st)\<rparr>
            | row # _ \<Rightarrow>
                (let fangraphs_id_raw = IDFANGRAPHS row;
                     player_name = FANTRAXNAME row
                 in if id_is_missing fangraphs_id_raw then
                      st\<lparr>missing_players :=
                           insert (''No FanGraphs ID for Fantrax ID: '' @ fantrax_id)
                             (missing_players st)\<rparr>
                    else
                      (case
                         (case py_int ext fangraphs_id_raw of
                            Inl e \<Rightarrow> Inl e
                          | Inr fangraphs_id \<Rightarrow>
                              evaluate_stats team_name batting_stats pitching_stats player
                                player_name fangraphs_id st)
                       of
                         Inr st' \<Rightarrow> st'
                       | Inl ValueError \<Rightarrow> st
                       | Inl TypeError \<Rightarrow> st
                       | Inl e \<Rightarrow>
                           st\<lparr>shown := shown st @
                                [StError (''Error processing player '' @ fantrax_id @ '': ''
                                          @ str_error e)]\<rparr>)))
      else st)"

text \<open>One team: its name is read once, then its items are visited in order.\<close>

definition process_team ::
  "(string \<Rightarrow> int option) \<Rightarrow> mapping_row list \<Rightarrow> stats_index \<Rightarrow> stats_index \<Rightarrow>
   string \<times> team_data \<Rightarrow> fim_state \<Rightarrow> fim_state" where
  "process_team ext id_mapping batting_stats pitching_stats entry st =
     (case entry of (team_id, team) \<Rightarrow>
        fold (process_player ext (teamName team) id_mapping batting_stats pitching_stats)
          (rosterItems team) st)"

text \<open>
  What the block after the loops shows: nothing for an empty set, otherwise the warning
  and one line of text per message of \<open>sorted(missing_players)\<close>.
\<close>

definition show_missing :: "string set \<Rightarrow> ui_event list" where
  "show_missing ms =
     (if ms \<noteq> {} then
        StWarning ''Some players could not be processed due to missing FanGraphs IDs:''
        # map StText (sorted_list_of_set ms)
      else [])"

text \<open>
  \<open>find_ineligible_minors\<close>: the returned list together with what was shown. The first
  argument is \<open>None\<close> or the decoded response.
\<close>

definition find_ineligible_minors ::
  "(string \<Rightarrow> int option) \<Rightarrow> fantrax_response option \<Rightarrow> mapping_row list \<Rightarrow> stats_index \<Rightarrow>
   stats_index \<Rightarrow> violation list \<times> ui_event list" where
  "find_ineligible_minors ext rosters id_mapping batting_stats pitching_stats =
     (case rosters of
        None \<Rightarrow> ([], [StError ''Invalid roster data received''])
      | Some resp \<Rightarrow>
          (case rosters_key resp of
             None \<Rightarrow> ([], [StError ''Invalid roster data received''])
           | Some teams \<Rightarrow>
               (let st = fold (process_team ext id_mapping batting_stats pitching_stats) teams
                           fim_init
                in (ineligible_players st, shown st @ show_missing (missing_players st)))))"

section \<open>Loading the mapping table\<close>

text \<open>
  The texts \<open>read_csv\<close> reads as a missing value: those the call passes as \<open>na_values\<close>
  and the defaults of pandas, which stay in force because the call does not pass
  \<open>keep_default_na=False\<close>.
\<close>

definition na_values :: "string list" where
  "na_values = ['''', ''nan'', ''NaN'', ''NULL'', ''null'']"

definition pandas_default_na :: "string list" where
  "pandas_default_na =
     ['''', ''#N/A'', ''#N/A N/A'', ''#NA'', ''-1.#IND'', ''-1.#QNAN'', ''-NaN'', ''-nan'',
      ''1.#IND'', ''1.#QNAN'', ''<NA>'', ''N/A'', ''NA'', ''NULL'', ''NaN'', ''None'',
      ''n/a'', ''nan'', ''null'']"

text \<open>
  One data row of the file as text. The file is taken to have the three columns (the
  Fantrax id under either of its two names, which the loader renames to one), and the
  cells of the id and name columns to hold text that is no missing-value marker; they
  are kept as they are.
\<close>

record csv_row =
  csv_Fantrax_ID :: string
  csv_IDFANGRAPHS :: string
  csv_FANTRAXNAME :: string

text \<open>
  The value of a provider-id cell: NaN for a missing-value marker. The value of any
  other text depends on the type pandas infers for the column (a number in a numeric
  column, the text itself in a column of mixed content) and is given by the parameter
  \<open>convert\<close>, applied to the texts of the column and the text of the cell.
\<close>

definition read_id_cell ::
  "(string list \<Rightarrow> string \<Rightarrow> pyval) \<Rightarrow> string list \<Rightarrow> string \<Rightarrow> pyval" where
  "read_id_cell convert column s =
     (if s \<in> set (na_values @ pandas_default_na) then PNaN else convert column s)"

text \<open>
  \<open>load_player_id_mapping\<close> on what it finds at the path: no file, a file that cannot
  be read (with the text of the exception), or the data rows. It returns the table, empty
  after a failure, with what it showed.
\<close>

datatype csv_file = NoFile | ReadFailed string | CsvTable "csv_row list"

definition load_player_id_mapping ::
  "(string list \<Rightarrow> string \<Rightarrow> pyval) \<Rightarrow> csv_file \<Rightarrow> mapping_row list \<times> ui_event list" where
  "load_player_id_mapping convert file =
     (case file of
        NoFile \<Rightarrow> ([], [StError ''No valid Player ID mapping file provided''])
      | ReadFailed msg \<Rightarrow> ([], [StError (''Error loading Player ID mapping file: '' @ msg)])
      | CsvTable rows \<Rightarrow>
          (let column = map csv_IDFANGRAPHS rows
           in (map (\<lambda>r. \<lparr>Fantrax_ID = csv_Fantrax_ID r,
                          IDFANGRAPHS = read_id_cell convert column (csv_IDFANGRAPHS r),
                          FANTRAXNAME = csv_FANTRAXNAME r\<rparr>) rows,
               [])))"

section \<open>The analysis run\<close>

text \<open>
  \<open>fetch_fantrax_rosters\<close> on the outcome of its one request: the decoded response, or
  \<open>None\<close> after showing the error.
\<close>

definition fetch_fantrax_rosters ::
  "py_error + fantrax_response \<Rightarrow> fantrax_response option \<times> ui_event list" where
  "fetch_fantrax_rosters reply =
     (case reply of
        Inl e \<Rightarrow> (None, [StError (''Error fetching Fantrax rosters: '' @ str_error e)])
      | Inr resp \<Rightarrow> (Some resp, []))"

text \<open>\<open>not rosters\<close>: true of \<open>None\<close> and of the empty dictionary.\<close>

definition rosters_falsy :: "fantrax_response option \<Rightarrow> bool" where
  "rosters_falsy rosters =
     (case rosters of
        None \<Rightarrow> True
      | Some resp \<Rightarrow> rosters_key resp = None \<and> other_keys resp = [])"

text \<open>
  The analysis that \<open>main\<close> runs when the button is pressed, from the roster fetch on.
  It is given the two statistics indexes already fetched, the outcome of the roster
  request, and the mapping table as loaded (no rows when loading failed).
\<close>

definition main ::
  "(string \<Rightarrow> int option) \<Rightarrow> stats_index \<times> stats_index \<Rightarrow> py_error + fantrax_response \<Rightarrow>
   mapping_row list \<Rightarrow> ui_event list" where
  "main ext stats reply id_mapping =
     (case stats of (batting_stats, pitching_stats) \<Rightarrow>
      case fetch_fantrax_rosters reply of (rosters, ui_fetch) \<Rightarrow>
        if rosters_falsy rosters then ui_fetch @ [StError ''Failed to fetch rosters'']
        else if id_mapping = [] then ui_fetch @ [StError ''Failed to load player mapping'']
        else
          (case find_ineligible_minors ext rosters id_mapping batting_stats pitching_stats of
             (ineligible, ui_find) \<Rightarrow>
               ui_fetch @ ui_find @ [StSubheader ''Analysis Results''] @
               (if ineligible \<noteq> [] then
                  [StMetric ''Ineligible Players'' (length ineligible),
                   StMetric ''Pitchers''
                     (length (filter (\<lambda>v. Position v \<in> set [''SP'', ''RP'', ''P'']) ineligible)),
                   StMetric ''Batters''
                     (length (filter (\<lambda>v. Position v \<notin> set [''SP'', ''RP'', ''P'']) ineligible)),
                   StDataframe ineligible,
                   StSubheader ''Summary by Team'']
                else
                  [StSuccess ''No ineligible players found in minors slots!'',
                   StMetric ''Ineligible Players'' 0,
                   StMetric ''Pitchers'' 0,
                   StMetric ''Batters'' 0])))"

section \<open>Statistics pagination\<close>

text \<open>
  The outcome of one page request: an exception of the request or the decoding, or the
  value of \<open>data.get('data')\<close> of the decoded body (\<open>None\<close> when the key is absent).
\<close>

datatype http_response = RequestFailed string | JsonBody "pydict list option"

text \<open>
  The page estimate made before the batting loop; it only scales the progress bar.
\<close>

definition estimate_total_pages :: "http_response \<Rightarrow> nat \<times> ui_event list" where
  "estimate_total_pages reply =
     (case reply of
        RequestFailed msg \<Rightarrow> (10, [StError (''Error estimating pages: '' @ msg)])
      | JsonBody d \<Rightarrow>
          (case d of
             None \<Rightarrow> (0, [])
           | Some players \<Rightarrow>
               if players = [] then (0, [])
               else (nat \<lceil>(of_nat (length players) :: rat) / 200\<rceil> + 5, [])))"

text \<open>
  The key and the record stored for one player of a page. The right-hand side of the
  assignment is evaluated before the subscript, so a missing \<open>Name\<close> is reported before
  a missing \<open>playerid\<close>. A batting row must carry \<open>AB\<close>; a pitching row without \<open>IP\<close>
  gets 0.
\<close>

definition batting_record :: "pydict \<Rightarrow> py_error + (pyval \<times> pydict)" where
  "batting_record player =
     (case dict_item player ''Name'' of
        Inl e \<Rightarrow> Inl e
      | Inr name \<Rightarrow>
          (case dict_item player ''AB'' of
             Inl e \<Rightarrow> Inl e
           | Inr ab \<Rightarrow>
               (case dict_item player ''playerid'' of
                  Inl e \<Rightarrow> Inl e
                | Inr pid \<Rightarrow> Inr (pid, [(''name'', name), (''career_AB'', ab)]))))"

definition pitching_record :: "pydict \<Rightarrow> py_error + (pyval \<times> pydict)" where
  "pitching_record player =
     (case dict_item player ''Name'' of
        Inl e \<Rightarrow> Inl e
      | Inr name \<Rightarrow>
          (let ip = dict_get player ''IP'' (PNum 0)
           in case dict_item player ''playerid'' of
                Inl e \<Rightarrow> Inl e
              | Inr pid \<Rightarrow> Inr (pid, [(''name'', name), (''career_IP'', ip)])))"

text \<open>
  The \<open>for\<close> loop over one page. The index is updated in place, so whatever was stored
  before an exception stays stored.
\<close>

fun store_players ::
  "(pydict \<Rightarrow> py_error + (pyval \<times> pydict)) \<Rightarrow> pydict list \<Rightarrow> stats_index \<Rightarrow>
   stats_index \<times> py_error option" where
  "store_players mk [] idx = (idx, None)"
| "store_players mk (player # rest) idx =
     (case mk player of
        Inl e \<Rightarrow> (idx, Some e)
      | Inr (pid, entry) \<Rightarrow> store_players mk rest (idx(pid \<mapsto> entry)))"

definition fetch_error :: "string \<Rightarrow> nat \<Rightarrow> string \<Rightarrow> ui_event" where
  "fetch_error kind page msg =
     StError (''Error fetching '' @ kind @ '' stats page '' @ str_int (int page) @ '': '' @ msg)"

text \<open>
  The \<open>while True\<close> loop, which the source writes out once for batting and once for
  pitching; \<open>mk\<close> is the record built per player and \<open>kind\<close> the word in the error
  text. \<open>get\<close> gives the outcome of the request for a page number. After a page is stored
  the page counter is advanced and the progress bar is set to \<open>page / total_pages\<close>,
  which raises when \<open>total_pages\<close> is 0. The loop need not end: the result is \<open>None\<close>
  when it does not.
\<close>

partial_function (option) fetch_pages ::
  "(pydict \<Rightarrow> py_error + (pyval \<times> pydict)) \<Rightarrow> string \<Rightarrow> nat \<Rightarrow> (nat \<Rightarrow> http_response) \<Rightarrow>
   nat \<Rightarrow> stats_index \<Rightarrow> (stats_index \<times> ui_event list) option" where
  "fetch_pages mk kind total_pages get page idx =
     (case get page of
        RequestFailed msg \<Rightarrow> Some (idx, [fetch_error kind page msg])
      | JsonBody d \<Rightarrow>
          (case d of
             None \<Rightarrow> Some (idx, [])
           | Some players \<Rightarrow>
               if players = [] then Some (idx, [])
               else
                 (case store_players mk players idx of
                    (idx', Some e) \<Rightarrow> Some (idx', [fetch_error kind page (str_error e)])
                  | (idx', None) \<Rightarrow>
                      if total_pages = 0 then
                        Some (idx', [fetch_error kind (page + 1) (str_error ZeroDivisionError)])
                      else fetch_pages mk kind total_pages get (page + 1) idx')))"

declare fetch_pages.simps [code]

text \<open>
  \<open>fetch_fangraphs_stats\<close>: the estimate request, the batting loop and the pitching loop,
  both loops starting at page 1 with an empty index and sharing the one estimate.
\<close>

definition fetch_fangraphs_stats ::
  "http_response \<Rightarrow> (nat \<Rightarrow> http_response) \<Rightarrow> (nat \<Rightarrow> http_response) \<Rightarrow>
   ((stats_index \<times> stats_index) \<times> ui_event list) option" where
  "fetch_fangraphs_stats estimate_reply get_bat get_pit =
     (case estimate_total_pages estimate_reply of (total_pages, ui_est) \<Rightarrow>
      case fetch_pages batting_record ''batting'' total_pages get_bat 1 Map.empty of
        None \<Rightarrow> None
      | Some (batting_stats, ui_bat) \<Rightarrow>
          (case fetch_pages pitching_record ''pitching'' total_pages get_pit 1 Map.empty of
             None \<Rightarrow> None
           | Some (pitching_stats, ui_pit) \<Rightarrow>
               Some ((batting_stats, pitching_stats), ui_est @ ui_bat @ ui_pit)))"

section \<open>What one item, one team and one run contribute\<close>

text \<open>
  The records, messages and errors an item yields when it is processed from the empty
  state, and their collection over a team. The properties below relate a whole run to
  these.
\<close>

definition add_out :: "fim_state \<Rightarrow> fim_state \<Rightarrow> fim_state" where
  "add_out st d =
     st\<lparr>ineligible_players := ineligible_players st @ ineligible_players d,
        missing_players := missing_players st \<union> missing_players d,
        shown := shown st @ shown d\<rparr>"

definition item_violations ::
  "(string \<Rightarrow> int option) \<Rightarrow> string \<Rightarrow> mapping_row list \<Rightarrow> stats_index \<Rightarrow> stats_index \<Rightarrow>
   roster_item \<Rightarrow> violation list" where
  "item_violations ext tn m b p pl =
     ineligible_players (process_player ext tn m b p pl fim_init)"

definition item_messages ::
  "(string \<Rightarrow> int option) \<Rightarrow> string \<Rightarrow> mapping_row list \<Rightarrow> stats_index \<Rightarrow> stats_index \<Rightarrow>
   roster_item \<Rightarrow> string set" where
  "item_messages ext tn m b p pl =
     missing_players (process_player ext tn m b p pl fim_init)"

definition item_errors ::
  "(string \<Rightarrow> int option) \<Rightarrow> string \<Rightarrow> mapping_row list \<Rightarrow> stats_index \<Rightarrow> stats_index \<Rightarrow>
   roster_item \<Rightarrow> ui_event list" where
  "item_errors ext tn m b p pl = shown (process_player ext tn m b p pl fim_init)"

definition team_violations ::
  "(string \<Rightarrow> int option) \<Rightarrow> mapping_row list \<Rightarrow> stats_index \<Rightarrow> stats_index \<Rightarrow>
   string \<times> team_data \<Rightarrow> violation list" where
  "team_violations ext m b p entry =
     concat (map (item_violations ext (teamName (snd entry)) m b p) (rosterItems (snd entry)))"

definition team_messages ::
  "(string \<Rightarrow> int option) \<Rightarrow> mapping_row list \<Rightarrow> stats_index \<Rightarrow> stats_index \<Rightarrow>
   string \<times> team_data \<Rightarrow> string set" where
  "team_messages ext m b p entry =
     (\<Union>pl \<in> set (rosterItems (snd entry)).
        item_messages ext (teamName (snd entry)) m b p pl)"

definition team_errors ::
  "(string \<Rightarrow> int option) \<Rightarrow> mapping_row list \<Rightarrow> stats_index \<Rightarrow> stats_index \<Rightarrow>
   string \<times> team_data \<Rightarrow> ui_event list" where
  "team_errors ext m b p entry =
     concat (map (item_errors ext (teamName (snd entry)) m b p) (rosterItems (snd entry)))"

text \<open>
  The players of a page (none for a failed request or a body without \<open>data\<close>), and the
  key-record pairs a list of players stores, in order.
\<close>

definition page_players :: "http_response \<Rightarrow> pydict list" where
  "page_players reply = (case reply of JsonBody (Some players) \<Rightarrow> players | _ \<Rightarrow> [])"

definition stored_entries ::
  "(pydict \<Rightarrow> py_error + (pyval \<times> pydict)) \<Rightarrow> pydict list \<Rightarrow> (pyval \<times> pydict) list" where
  "stored_entries mk players =
     concat (map (\<lambda>player. case mk player of Inr kv \<Rightarrow> [kv] | Inl e \<Rightarrow> []) players)"

section \<open>Properties\<close>

subsection \<open>Which exceptions can arise\<close>

lemma py_int_error:
  "py_int ext v = Inl e \<Longrightarrow> e = ValueError \<or> e = TypeError \<or> e = OverflowError"
  by (cases v) (auto split: option.splits)

lemma check_error: "check_minors_eligibility s b = Inl e \<Longrightarrow> e = TypeError"
  by (auto simp: check_minors_eligibility_def Let_def
      split: if_splits sum.splits elim: py_le_int.elims)

lemma round_error: "py_round1 v = Inl e \<Longrightarrow> e = TypeError"
  by (cases v) auto

lemma evaluate_stats_error:
  "evaluate_stats tn b p player nm n st = Inl e \<Longrightarrow> e = TypeError"
  unfolding evaluate_stats_def Let_def
  by (auto split: if_splits sum.splits prod.splits dest: check_error round_error)

lemma check_numeric:
  "dict_get stats (if b then ''career_IP'' else ''career_AB'') (PNum 0) = PNum x \<Longrightarrow>
   check_minors_eligibility stats b = Inr (x \<le> (if b then 50 else 130), PNum x)"
  by (cases b) (simp_all add: check_minors_eligibility_def Let_def)

subsection \<open>An item acts on the accumulators by appending\<close>

lemma add_out_init [simp]: "add_out st fim_init = st"
  by (simp add: add_out_def fim_init_def)

lemma add_out_fields [simp]:
  "ineligible_players (add_out st d) = ineligible_players st @ ineligible_players d"
  "missing_players (add_out st d) = missing_players st \<union> missing_players d"
  "shown (add_out st d) = shown st @ shown d"
  by (simp_all add: add_out_def)

lemma evaluate_stats_local:
  "evaluate_stats tn b p player nm n st =
     (case evaluate_stats tn b p player nm n fim_init of
        Inl e \<Rightarrow> Inl e
      | Inr d \<Rightarrow> Inr (add_out st d))"
  unfolding evaluate_stats_def Let_def
  by (simp add: add_out_def fim_init_def split: sum.splits prod.splits)

lemma evaluate_stats_outcome:
  "evaluate_stats tn b p player nm n fim_init = Inr d \<Longrightarrow>
     finite (missing_players d) \<and> length (ineligible_players d) \<le> 1"
  unfolding evaluate_stats_def Let_def fim_init_def
  by (auto split: if_splits sum.splits prod.splits)

text \<open>What a minors-slot item with a mapping row and a present id cell comes to.\<close>

lemma process_player_present:
  assumes "status player = ''MINORS''"
    and "filter (\<lambda>r. Fantrax_ID r = player_id player) m = row # rest"
    and "\<not> id_is_missing (IDFANGRAPHS row)"
  shows "process_player ext tn m b p player st =
           (case py_int ext (IDFANGRAPHS row) of
              Inl OverflowError \<Rightarrow>
                st\<lparr>shown := shown st @
                     [StError (''Error processing player '' @ player_id player @ '': ''
                               @ str_error OverflowError)]\<rparr>
            | Inl e \<Rightarrow> st
            | Inr n \<Rightarrow>
                (case evaluate_stats tn b p player (FANTRAXNAME row) n st of
                   Inl e \<Rightarrow> st
                 | Inr st' \<Rightarrow> st'))"
proof (cases "py_int ext (IDFANGRAPHS row)")
  case (Inl e)
  then have "e = ValueError \<or> e = TypeError \<or> e = OverflowError" by (rule py_int_error)
  then show ?thesis using assms Inl
    by (auto simp: process_player_def)
next
  case (Inr n)
  show ?thesis
  proof (cases "evaluate_stats tn b p player (FANTRAXNAME row) n st")
    case (Inl e)
    then have "e = TypeError" by (rule evaluate_stats_error)
    then show ?thesis using assms Inr Inl by (simp add: process_player_def)
  next
    case st': (Inr st')
    then show ?thesis using assms Inr by (simp add: process_player_def)
  qed
qed

lemma process_player_local:
  "process_player ext tn m b p player st
     = add_out st (process_player ext tn m b p player fim_init)"
proof (cases "status player = ''MINORS''")
  case False
  then show ?thesis by (simp add: process_player_def)
next
  case minors: True
  show ?thesis
  proof (cases "filter (\<lambda>r. Fantrax_ID r = player_id player) m")
    case Nil
    then show ?thesis using minors
      by (simp add: process_player_def add_out_def fim_init_def)
  next
    case (Cons row rest)
    show ?thesis
    proof (cases "id_is_missing (IDFANGRAPHS row)")
      case True
      then show ?thesis using minors Cons
        by (simp add: process_player_def add_out_def fim_init_def)
    next
      case present: False
      note pp = process_player_present[OF minors Cons present]
      show ?thesis
      proof (cases "py_int ext (IDFANGRAPHS row)")
        case (Inl e)
        then have "e = ValueError \<or> e = TypeError \<or> e = OverflowError"
          by (rule py_int_error)
        then show ?thesis using Inl
          by (auto simp: pp add_out_def fim_init_def)
      next
        case (Inr n)
        show ?thesis
        proof (cases "evaluate_stats tn b p player (FANTRAXNAME row) n fim_init")
          case (Inl e)
          have "evaluate_stats tn b p player (FANTRAXNAME row) n st = Inl e"
            using Inl evaluate_stats_local[of tn b p player "FANTRAXNAME row" n st] by simp
          then show ?thesis using Inr Inl by (simp add: pp)
        next
          case d: (Inr d)
          have "evaluate_stats tn b p player (FANTRAXNAME row) n st = Inr (add_out st d)"
            using d evaluate_stats_local[of tn b p player "FANTRAXNAME row" n st] by simp
          then show ?thesis using Inr d by (simp add: pp)
        qed
      qed
    qed
  qed
qed

lemma process_player_outcome:
  "finite (missing_players (process_player ext tn m b p player fim_init))
   \<and> length (ineligible_players (process_player ext tn m b p player fim_init)) \<le> 1"
proof (cases "status player = ''MINORS''")
  case False
  then show ?thesis by (simp add: process_player_def fim_init_def)
next
  case minors: True
  show ?thesis
  proof (cases "filter (\<lambda>r. Fantrax_ID r = player_id player) m")
    case Nil
    then show ?thesis using minors
      by (simp add: process_player_def fim_init_def)
  next
    case (Cons row rest)
    show ?thesis
    proof (cases "id_is_missing (IDFANGRAPHS row)")
      case True
      then show ?thesis using minors Cons
        by (simp add: process_player_def fim_init_def)
    next
      case present: False
      note pp = process_player_present[OF minors Cons present]
      show ?thesis
      proof (cases "py_int ext (IDFANGRAPHS row)")
        case (Inl e)
        then have "e = ValueError \<or> e = TypeError \<or> e = OverflowError"
          by (rule py_int_error)
        then show ?thesis using Inl
          by (auto simp: pp fim_init_def)
      next
        case (Inr n)
        show ?thesis
        proof (cases "evaluate_stats tn b p player (FANTRAXNAME row) n fim_init")
          case (Inl e)
          then show ?thesis using Inr by (simp add: pp fim_init_def)
        next
          case d: (Inr d)
          then show ?thesis using Inr evaluate_stats_outcome[OF d] by (simp add: pp)
        qed
      qed
    qed
  qed
qed

subsection \<open>Folding over items and teams\<close>

lemma fold_process_player_violations:
  "ineligible_players (fold (process_player ext tn m b p) items st) =
     ineligible_players st @ concat (map (item_violations ext tn m b p) items)"
proof (induction items arbitrary: st)
  case Nil
  show ?case by simp
next
  case (Cons x xs)
  show ?case
    using Cons.IH[of "process_player ext tn m b p x st"]
      process_player_local[of ext tn m b p x st]
    by (simp add: item_violations_def)
qed

lemma fold_process_player_missing:
  "missing_players (fold (process_player ext tn m b p) items st) =
     missing_players st \<union> (\<Union>pl \<in> set items. item_messages ext tn m b p pl)"
proof (induction items arbitrary: st)
  case Nil
  show ?case by simp
next
  case (Cons x xs)
  show ?case
    using Cons.IH[of "process_player ext tn m b p x st"]
      process_player_local[of ext tn m b p x st]
    by (simp add: item_messages_def Un_assoc)
qed

lemma fold_process_player_shown:
  "shown (fold (process_player ext tn m b p) items st) =
     shown st @ concat (map (item_errors ext tn m b p) items)"
proof (induction items arbitrary: st)
  case Nil
  show ?case by simp
next
  case (Cons x xs)
  show ?case
    using Cons.IH[of "process_player ext tn m b p x st"]
      process_player_local[of ext tn m b p x st]
    by (simp add: item_errors_def)
qed

lemma process_team_fields:
  "ineligible_players (process_team ext m b p entry st) =
     ineligible_players st @ team_violations ext m b p entry"
  "missing_players (process_team ext m b p entry st) =
     missing_players st \<union> team_messages ext m b p entry"
  "shown (process_team ext m b p entry st) = shown st @ team_errors ext m b p entry"
  by (cases entry;
      simp add: process_team_def team_violations_def team_messages_def team_errors_def
        fold_process_player_violations fold_process_player_missing
        fold_process_player_shown)+

lemma fold_process_team_violations:
  "ineligible_players (fold (process_team ext m b p) teams st) =
     ineligible_players st @ concat (map (team_violations ext m b p) teams)"
  by (induction teams arbitrary: st) (simp_all add: process_team_fields)

lemma fold_process_team_missing:
  "missing_players (fold (process_team ext m b p) teams st) =
     missing_players st \<union> (\<Union>entry \<in> set teams. team_messages ext m b p entry)"
  by (induction teams arbitrary: st) (simp_all add: process_team_fields Un_assoc)

lemma fold_process_team_shown:
  "shown (fold (process_team ext m b p) teams st) =
     shown st @ concat (map (team_errors ext m b p) teams)"
  by (induction teams arbitrary: st) (simp_all add: process_team_fields)

lemma finite_team_messages:
  "finite (\<Union>entry \<in> set teams. team_messages ext m b p entry)"
  by (simp add: team_messages_def item_messages_def process_player_outcome)

lemma fim_init_fields:
  "ineligible_players fim_init = []" "missing_players fim_init = {}" "shown fim_init = []"
  by (simp_all add: fim_init_def)

subsection \<open>Eligibility thresholds\<close>

text \<open>
  Claim C1. A pitcher whose stats record carries a numeric career innings-pitched total
  is eligible exactly when that total is at most 50, a batter with a numeric career
  at-bat total exactly when it is at most 130; the totals 50 and 130 themselves are
  eligible, and a record without the field counts as 0 and is eligible. The total is
  returned unchanged beside the verdict.
\<close>

theorem check_minors_eligibility_thresholds:
  "(map_of stats ''career_IP'' = Some (PNum x) \<longrightarrow>
      check_minors_eligibility stats True = Inr (x \<le> 50, PNum x))
   \<and> (map_of stats ''career_AB'' = Some (PNum y) \<longrightarrow>
      check_minors_eligibility stats False = Inr (y \<le> 130, PNum y))
   \<and> (map_of stats ''career_IP'' = Some (PNum 50) \<longrightarrow>
      check_minors_eligibility stats True = Inr (True, PNum 50))
   \<and> (map_of stats ''career_AB'' = Some (PNum 130) \<longrightarrow>
      check_minors_eligibility stats False = Inr (True, PNum 130))
   \<and> (map_of stats ''career_IP'' = None \<longrightarrow>
      check_minors_eligibility stats True = Inr (True, PNum 0))
   \<and> (map_of stats ''career_AB'' = None \<longrightarrow>
      check_minors_eligibility stats False = Inr (True, PNum 0))"
  by (simp add: check_minors_eligibility_def dict_get_def)

theorem check_minors_eligibility_thresholds_witness:
  "check_minors_eligibility [(''name'', PStr ''A''), (''career_IP'', PNum (501 / 10))] True
     = Inr (False, PNum (501 / 10))
   \<and> check_minors_eligibility [(''name'', PStr ''B''), (''career_AB'', PNum 131)] False
     = Inr (False, PNum 131)
   \<and> check_minors_eligibility [(''name'', PStr ''C''), (''career_IP'', PNum 50)] True
     = Inr (True, PNum 50)
   \<and> check_minors_eligibility [(''name'', PStr ''D''), (''career_AB'', PNum 130)] False
     = Inr (True, PNum 130)
   \<and> check_minors_eligibility [(''name'', PStr ''E'')] True = Inr (True, PNum 0)
   \<and> check_minors_eligibility [(''name'', PStr ''E'')] False = Inr (True, PNum 0)"
  using
    check_minors_eligibility_thresholds
      [of "[(''name'', PStr ''A''), (''career_IP'', PNum (501 / 10))]" "501 / 10" 0]
    check_minors_eligibility_thresholds
      [of "[(''name'', PStr ''B''), (''career_AB'', PNum 131)]" 0 131]
    check_minors_eligibility_thresholds
      [of "[(''name'', PStr ''C''), (''career_IP'', PNum 50)]" 50 0]
    check_minors_eligibility_thresholds
      [of "[(''name'', PStr ''D''), (''career_AB'', PNum 130)]" 0 130]
    check_minors_eligibility_thresholds [of "[(''name'', PStr ''E'')]" 0 0]
  by simp

subsection \<open>Items outside the minors slot\<close>

text \<open>
  Claim C6. A roster item whose status is not \<open>MINORS\<close> leaves both accumulators and the
  page untouched, whatever the mapping table and the indexes hold: it yields no violation
  and no diagnostic.
\<close>

theorem non_minors_item_ignored:
  "status player \<noteq> ''MINORS'' \<Longrightarrow> process_player ext tn m b p player st = st"
  by (simp add: process_player_def)

theorem non_minors_item_ignored_witness:
  "status \<lparr>player_id = ''p1'', status = ''ACTIVE'', position = ''SP''\<rparr> \<noteq> ''MINORS''
   \<and> process_player (\<lambda>s. None) ''Team A''
        [\<lparr>Fantrax_ID = ''p1'', IDFANGRAPHS = PNum 7, FANTRAXNAME = ''Al''\<rparr>]
        Map.empty
        [PNum 7 \<mapsto> [(''name'', PStr ''Al''), (''career_IP'', PNum 300)]]
        \<lparr>player_id = ''p1'', status = ''ACTIVE'', position = ''SP''\<rparr> fim_init
      = fim_init"
proof -
  have h: "status \<lparr>player_id = ''p1'', status = ''ACTIVE'', position = ''SP''\<rparr> \<noteq> ''MINORS''"
    by simp
  from non_minors_item_ignored[OF h] h show ?thesis by simp
qed

subsection \<open>Provider ids that are not integers\<close>

text \<open>
  Inside the reconciliation a present id cell that \<open>int\<close> rejects with a \<open>ValueError\<close> or
  a \<open>TypeError\<close> is passed over without a trace, an infinite float is reported as an
  error of processing, and a missing cell adds a message.
\<close>

lemma rejected_id_passed_over:
  assumes "status player = ''MINORS''"
    and "filter (\<lambda>r. Fantrax_ID r = player_id player) m = row # rest"
    and "\<not> id_is_missing (IDFANGRAPHS row)"
    and "py_int ext (IDFANGRAPHS row) = Inl e"
    and "e \<noteq> OverflowError"
  shows "process_player ext tn m b p player st = st"
proof -
  from assms(4) have "e = ValueError \<or> e = TypeError \<or> e = OverflowError"
    by (rule py_int_error)
  with assms(5) have "e = ValueError \<or> e = TypeError" by simp
  then show ?thesis
    using assms(4) by (auto simp: process_player_present[OF assms(1-3)])
qed

lemma infinite_id_shows_error:
  assumes "status player = ''MINORS''"
    and "filter (\<lambda>r. Fantrax_ID r = player_id player) m = row # rest"
    and "IDFANGRAPHS row = PInf positive"
  shows "process_player ext tn m b p player st =
           st\<lparr>shown := shown st @
                [StError (''Error processing player '' @ player_id player
                          @ '': cannot convert float infinity to integer'')]\<rparr>"
proof -
  have "\<not> id_is_missing (IDFANGRAPHS row)"
    using assms(3) by (simp add: id_is_missing_def pd_isna_def)
  from process_player_present[OF assms(1,2) this] assms(3)
  show ?thesis by simp
qed

lemma missing_id_adds_message:
  assumes "status player = ''MINORS''"
    and "filter (\<lambda>r. Fantrax_ID r = player_id player) m = row # rest"
    and "id_is_missing (IDFANGRAPHS row)"
  shows "process_player ext tn m b p player st =
           st\<lparr>missing_players :=
                insert (''No FanGraphs ID for Fantrax ID: '' @ player_id player)
                  (missing_players st)\<rparr>"
  using assms by (simp add: process_player_def)

lemma text_na_is_read_as_missing:
  "read_id_cell convert column ''N/A'' = PNaN"
  by (simp add: read_id_cell_def na_values_def pandas_default_na_def)

text \<open>
  Claim C2. A provider id that is present in the file and is no integer, such as the text
  \<open>N/A\<close>, is to be passed over without a diagnostic. The loader does not keep that text:
  \<open>N/A\<close> is one of the markers \<open>read_csv\<close> turns into NaN, so the cell reaches the
  reconciliation as a missing id. Here the file has the one row \<open>p1, N/A, Al\<close> and the
  roster has \<open>p1\<close> in the minors slot: the run shows the message
  \<open>No FanGraphs ID for Fantrax ID: p1\<close>.
\<close>

theorem na_text_id_reported_as_missing:
  "find_ineligible_minors ext
     (Some \<lparr>rosters_key = Some
        [(''t1'', \<lparr>teamName = ''Ants'', rosterItems =
            [\<lparr>player_id = ''p1'', status = ''MINORS'', position = ''SP''\<rparr>]\<rparr>)],
        other_keys = []\<rparr>)
     (fst (load_player_id_mapping convert
        (CsvTable [\<lparr>csv_Fantrax_ID = ''p1'', csv_IDFANGRAPHS = ''N/A'',
                    csv_FANTRAXNAME = ''Al''\<rparr>])))
     Map.empty Map.empty
   = ([],
      [StWarning ''Some players could not be processed due to missing FanGraphs IDs:'',
       StText ''No FanGraphs ID for Fantrax ID: p1''])"
proof -
  let ?pl = "\<lparr>player_id = ''p1'', status = ''MINORS'', position = ''SP''\<rparr>"
  let ?row = "\<lparr>Fantrax_ID = ''p1'', IDFANGRAPHS = PNaN, FANTRAXNAME = ''Al''\<rparr>"
  have load: "fst (load_player_id_mapping convert
        (CsvTable [\<lparr>csv_Fantrax_ID = ''p1'', csv_IDFANGRAPHS = ''N/A'',
                    csv_FANTRAXNAME = ''Al''\<rparr>])) = [?row]"
    by (simp add: load_player_id_mapping_def text_na_is_read_as_missing)
  have s: "status ?pl = ''MINORS''" by simp
  have f: "filter (\<lambda>r. Fantrax_ID r = player_id ?pl) [?row] = ?row # []" by simp
  have mi: "id_is_missing (IDFANGRAPHS ?row)" by (simp add: id_is_missing_def pd_isna_def)
  have pp: "process_player ext ''Ants'' [?row] Map.empty Map.empty ?pl fim_init
              = fim_init\<lparr>missing_players := {''No FanGraphs ID for Fantrax ID: p1''}\<rparr>"
    using missing_id_adds_message[OF s f mi, of ext "''Ants''" Map.empty Map.empty fim_init]
    by (simp add: fim_init_def)
  have run: "process_team ext [?row] Map.empty Map.empty
               (''t1'', \<lparr>teamName = ''Ants'', rosterItems = [?pl]\<rparr>)
               \<lparr>ineligible_players = [], missing_players = {}, shown = []\<rparr>
             = \<lparr>ineligible_players = [],
                missing_players = {''No FanGraphs ID for Fantrax ID: p1''}, shown = []\<rparr>"
    using pp[unfolded fim_init_def] by (simp add: process_team_def)
  show ?thesis
    unfolding load
    by (simp add: find_ineligible_minors_def run show_missing_def fim_init_def)
qed

subsection \<open>Duplicate mapping rows\<close>

text \<open>
  Claim C10. When several rows of the mapping table carry the item's Fantrax id, the item
  is processed exactly as if the table held only the first of them: provider id and
  display name come from that row, and the other rows leave no trace, neither an error
  nor a diagnostic.
\<close>

theorem duplicate_mapping_first_row_wins:
  assumes "\<forall>r \<in> set pre. Fantrax_ID r \<noteq> player_id player"
    and "Fantrax_ID row = player_id player"
  shows "process_player ext tn (pre @ row # post) b p player st
           = process_player ext tn [row] b p player st"
proof -
  have "filter (\<lambda>r. Fantrax_ID r = player_id player) pre = []"
    using assms(1) by (simp add: filter_empty_conv)
  then show ?thesis using assms(2)
    by (simp add: process_player_def Let_def)
qed

theorem duplicate_mapping_first_row_wins_witness:
  "process_player (\<lambda>s. None) ''Team A''
     [\<lparr>Fantrax_ID = ''p0'', IDFANGRAPHS = PNum 3, FANTRAXNAME = ''Zed''\<rparr>,
      \<lparr>Fantrax_ID = ''p1'', IDFANGRAPHS = PNum 7, FANTRAXNAME = ''Al''\<rparr>,
      \<lparr>Fantrax_ID = ''p1'', IDFANGRAPHS = PNum 8, FANTRAXNAME = ''Bo''\<rparr>]
     Map.empty
     [PNum 7 \<mapsto> [(''name'', PStr ''x''), (''career_IP'', PNum 60)],
      PNum 8 \<mapsto> [(''name'', PStr ''y''), (''career_IP'', PNum 10)]]
     \<lparr>player_id = ''p1'', status = ''MINORS'', position = ''SP''\<rparr> fim_init
   = fim_init\<lparr>ineligible_players :=
       [\<lparr>Player = ''Al'', Position = ''SP'', Team = ''Team A'', Current_Total = PNum 60,
         Threshold = ''50 IP''\<rparr>]\<rparr>"
proof -
  let ?pl = "\<lparr>player_id = ''p1'', status = ''MINORS'', position = ''SP''\<rparr>"
  let ?r0 = "\<lparr>Fantrax_ID = ''p0'', IDFANGRAPHS = PNum 3, FANTRAXNAME = ''Zed''\<rparr>"
  let ?r1 = "\<lparr>Fantrax_ID = ''p1'', IDFANGRAPHS = PNum 7, FANTRAXNAME = ''Al''\<rparr>"
  let ?r2 = "\<lparr>Fantrax_ID = ''p1'', IDFANGRAPHS = PNum 8, FANTRAXNAME = ''Bo''\<rparr>"
  let ?pit = "[PNum 7 \<mapsto> [(''name'', PStr ''x''), (''career_IP'', PNum 60)],
      PNum 8 \<mapsto> [(''name'', PStr ''y''), (''career_IP'', PNum 10)]]"
  have h1: "\<forall>r \<in> set [?r0]. Fantrax_ID r \<noteq> player_id ?pl" by simp
  have h2: "Fantrax_ID ?r1 = player_id ?pl" by simp
  have "process_player (\<lambda>s. None) ''Team A'' [?r1] Map.empty ?pit ?pl fim_init
     = fim_init\<lparr>ineligible_players :=
       [\<lparr>Player = ''Al'', Position = ''SP'', Team = ''Team A'', Current_Total = PNum 60,
         Threshold = ''50 IP''\<rparr>]\<rparr>"
    by code_simp
  with duplicate_mapping_first_row_wins[OF h1 h2,
      of "\<lambda>s. None" "''Team A''" "[?r2]" Map.empty ?pit fim_init]
  show ?thesis by simp
qed

subsection \<open>The violation record\<close>

lemma evaluate_stats_numeric:
  assumes "is_pitcher = (position player \<in> {''SP'', ''RP'', ''P''})"
    and "stats = index_get (if is_pitcher then p else b) n"
    and "stats \<noteq> []"
    and "dict_get stats (if is_pitcher then ''career_IP'' else ''career_AB'') (PNum 0) = PNum x"
  shows "evaluate_stats tn b p player nm n st =
           Inr (if (if is_pitcher then 50 else 130) < x then
                  st\<lparr>ineligible_players := ineligible_players st @
                       [\<lparr>Player = nm, Position = position player, Team = tn,
                         Current_Total = PNum (of_int (round_half_even (x * 10)) / 10),
                         Threshold = (if is_pitcher then ''50 IP'' else ''130 AB'')\<rparr>]\<rparr>
                else st)"
proof (cases is_pitcher)
  case True
  then have pos: "position player = ''SP'' \<or> position player = ''RP'' \<or> position player = ''P''"
    using assms(1) by blast
  from True assms have s: "index_get p n \<noteq> []"
    and c: "check_minors_eligibility (index_get p n) True = Inr (x \<le> 50, PNum x)"
    using check_numeric[of stats True x] by auto
  show ?thesis using True s c pos
    by (auto simp: evaluate_stats_def Let_def)
next
  case False
  then have pos: "position player \<noteq> ''SP''" "position player \<noteq> ''RP''" "position player \<noteq> ''P''"
    using assms(1) by blast+
  from False assms have s: "index_get b n \<noteq> []"
    and c: "check_minors_eligibility (index_get b n) False = Inr (x \<le> 130, PNum x)"
    using check_numeric[of stats False x] by auto
  show ?thesis using False s c pos
    by (auto simp: evaluate_stats_def Let_def)
qed

text \<open>
  Claim C4. For a minors-slot item with a mapping row, an integer provider id and a stats
  record with a numeric total \<open>x\<close>: a violation is appended exactly when \<open>x\<close> itself, not
  its rounding, exceeds the threshold (50 for a pitcher, 130 for a batter). The record
  carries the name of the mapping row, the item's position, the team name, \<open>x\<close> rounded
  to one decimal place, and the label \<open>50 IP\<close> or \<open>130 AB\<close>. The totals 50.049 and 50.06
  both exceed 50 and are reported as 50.0 and 50.1.
\<close>

theorem violation_reports_rounded_total:
  assumes "status player = ''MINORS''"
    and "filter (\<lambda>r. Fantrax_ID r = player_id player) m = row # rest"
    and "\<not> id_is_missing (IDFANGRAPHS row)"
    and "py_int ext (IDFANGRAPHS row) = Inr n"
    and "is_pitcher = (position player \<in> {''SP'', ''RP'', ''P''})"
    and "stats = index_get (if is_pitcher then p else b) n"
    and "stats \<noteq> []"
    and "dict_get stats (if is_pitcher then ''career_IP'' else ''career_AB'') (PNum 0) = PNum x"
  shows "process_player ext tn m b p player st =
           (if (if is_pitcher then 50 else 130) < x then
              st\<lparr>ineligible_players := ineligible_players st @
                   [\<lparr>Player = FANTRAXNAME row, Position = position player, Team = tn,
                     Current_Total = PNum (of_int (round_half_even (x * 10)) / 10),
                     Threshold = (if is_pitcher then ''50 IP'' else ''130 AB'')\<rparr>]\<rparr>
            else st)
       \<and> (50 :: rat) < 50049 / 1000
       \<and> PNum (of_int (round_half_even ((50049 / 1000) * 10)) / 10) = PNum 50
       \<and> (50 :: rat) < 5006 / 100
       \<and> PNum (of_int (round_half_even ((5006 / 100) * 10)) / 10) = PNum (501 / 10)"
proof -
  have r1: "PNum (of_int (round_half_even ((50049 / 1000) * 10)) / 10) = PNum 50"
    by code_simp
  have r2: "PNum (of_int (round_half_even ((5006 / 100) * 10)) / 10) = PNum (501 / 10)"
    by code_simp
  show ?thesis
    using process_player_present[OF assms(1-3), of ext tn b p st] assms(4)
      evaluate_stats_numeric[OF assms(5-8), of tn "FANTRAXNAME row" st] r1 r2
    by simp
qed

theorem violation_reports_rounded_total_witness:
  "process_player (\<lambda>s. None) ''Team A''
     [\<lparr>Fantrax_ID = ''p1'', IDFANGRAPHS = PStr ''7'', FANTRAXNAME = ''Al''\<rparr>]
     Map.empty
     [PNum 7 \<mapsto> [(''name'', PStr ''Albert''), (''career_IP'', PNum (5006 / 100))]]
     \<lparr>player_id = ''p1'', status = ''MINORS'', position = ''RP''\<rparr> fim_init
   = fim_init\<lparr>ineligible_players :=
       [\<lparr>Player = ''Al'', Position = ''RP'', Team = ''Team A'',
         Current_Total = PNum (501 / 10), Threshold = ''50 IP''\<rparr>]\<rparr>"
proof -
  let ?pl = "\<lparr>player_id = ''p1'', status = ''MINORS'', position = ''RP''\<rparr>"
  let ?row = "\<lparr>Fantrax_ID = ''p1'', IDFANGRAPHS = PStr ''7'', FANTRAXNAME = ''Al''\<rparr>"
  let ?st = "[(''name'', PStr ''Albert''), (''career_IP'', PNum (5006 / 100))]"
  let ?pit = "[PNum 7 \<mapsto> ?st]"
  have h1: "status ?pl = ''MINORS''" by simp
  have h2: "filter (\<lambda>r. Fantrax_ID r = player_id ?pl) [?row] = ?row # []" by simp
  have h3: "\<not> id_is_missing (IDFANGRAPHS ?row)" by (simp add: id_is_missing_def pd_isna_def)
  have h4: "py_int (\<lambda>s. None) (IDFANGRAPHS ?row) = Inr 7" by code_simp
  have h5: "True = (position ?pl \<in> {''SP'', ''RP'', ''P''})" by simp
  have h6: "?st = index_get (if True then ?pit else Map.empty) 7"
    by (simp add: index_get_def)
  have h7: "?st \<noteq> []" by simp
  have h8: "dict_get ?st (if True then ''career_IP'' else ''career_AB'') (PNum 0)
              = PNum (5006 / 100)"
    by (simp add: dict_get_def)
  have i: "ineligible_players fim_init = []" by (simp add: fim_init_def)
  from violation_reports_rounded_total[OF h1 h2 h3 h4 h5 h6 h7 h8, of "''Team A''" fim_init]
  show ?thesis using i by simp
qed

subsection \<open>Classification and index lookup\<close>

text \<open>
  Claim C5. For a minors-slot item with a mapping row and an integer provider id \<open>n\<close>: when
  the item's position is SP, RP or P it is a pitcher, \<open>n\<close> is looked up in the pitching
  index, and the record found there is judged by the pitcher's rule and labelled
  \<open>50 IP\<close>; with any other position it is a batter, \<open>n\<close> is looked up in the batting index,
  and the record found there is judged by the batter's rule and labelled \<open>130 AB\<close>. When
  \<open>n\<close> is not a key of the index consulted, the diagnostic
  \<open>No stats for <name> (FG ID: n)\<close> is added and no violation.
\<close>

theorem pitcher_classification_and_lookup:
  assumes "status player = ''MINORS''"
    and "filter (\<lambda>r. Fantrax_ID r = player_id player) m = row # rest"
    and "\<not> id_is_missing (IDFANGRAPHS row)"
    and "py_int ext (IDFANGRAPHS row) = Inr n"
  shows "(position player \<in> {''SP'', ''RP'', ''P''} \<longrightarrow>
            (p (PNum (of_int n)) = None \<longrightarrow>
               process_player ext tn m b p player st =
                 st\<lparr>missing_players :=
                      insert (''No stats for '' @ FANTRAXNAME row
                              @ '' (FG ID: '' @ str_int n @ '')'')
                        (missing_players st)\<rparr>)
          \<and> (p (PNum (of_int n)) = Some stats \<longrightarrow> stats \<noteq> [] \<longrightarrow>
               process_player ext tn m b p player st =
                 (case check_minors_eligibility stats True of
                    Inl e \<Rightarrow> st
                  | Inr (is_eligible, current_total) \<Rightarrow>
                      if is_eligible then st
                      else (case py_round1 current_total of
                              Inl e \<Rightarrow> st
                            | Inr rounded \<Rightarrow>
                                st\<lparr>ineligible_players := ineligible_players st @
                                     [\<lparr>Player = FANTRAXNAME row, Position = position player,
                                       Team = tn, Current_Total = rounded,
                                       Threshold = ''50 IP''\<rparr>]\<rparr>))))
       \<and> (position player \<notin> {''SP'', ''RP'', ''P''} \<longrightarrow>
            (b (PNum (of_int n)) = None \<longrightarrow>
               process_player ext tn m b p player st =
                 st\<lparr>missing_players :=
                      insert (''No stats for '' @ FANTRAXNAME row
                              @ '' (FG ID: '' @ str_int n @ '')'')
                        (missing_players st)\<rparr>)
          \<and> (b (PNum (of_int n)) = Some stats \<longrightarrow> stats \<noteq> [] \<longrightarrow>
               process_player ext tn m b p player st =
                 (case check_minors_eligibility stats False of
                    Inl e \<Rightarrow> st
                  | Inr (is_eligible, current_total) \<Rightarrow>
                      if is_eligible then st
                      else (case py_round1 current_total of
                              Inl e \<Rightarrow> st
                            | Inr rounded \<Rightarrow>
                                st\<lparr>ineligible_players := ineligible_players st @
                                     [\<lparr>Player = FANTRAXNAME row, Position = position player,
                                       Team = tn, Current_Total = rounded,
                                       Threshold = ''130 AB''\<rparr>]\<rparr>))))"
proof -
  let ?msg = "''No stats for '' @ FANTRAXNAME row @ '' (FG ID: '' @ str_int n @ '')''"
  let ?ev = "evaluate_stats tn b p player (FANTRAXNAME row) n st"
  have pp: "process_player ext tn m b p player st =
              (case ?ev of Inl e \<Rightarrow> st | Inr st' \<Rightarrow> st')"
    using process_player_present[OF assms(1-3), of ext tn b p st] assms(4) by simp
  have pit_none: "?ev = Inr (st\<lparr>missing_players := insert ?msg (missing_players st)\<rparr>)"
    if "position player \<in> {''SP'', ''RP'', ''P''}" "p (PNum (of_int n)) = None"
    using that by (auto simp: evaluate_stats_def index_get_def)
  have bat_none: "?ev = Inr (st\<lparr>missing_players := insert ?msg (missing_players st)\<rparr>)"
    if "position player \<notin> {''SP'', ''RP'', ''P''}" "b (PNum (of_int n)) = None"
    using that by (simp add: evaluate_stats_def index_get_def)
  have pit_some: "(case ?ev of Inl e \<Rightarrow> st | Inr st' \<Rightarrow> st') =
                 (case check_minors_eligibility stats True of
                    Inl e \<Rightarrow> st
                  | Inr (is_eligible, current_total) \<Rightarrow>
                      if is_eligible then st
                      else (case py_round1 current_total of
                              Inl e \<Rightarrow> st
                            | Inr rounded \<Rightarrow>
                                st\<lparr>ineligible_players := ineligible_players st @
                                     [\<lparr>Player = FANTRAXNAME row, Position = position player,
                                       Team = tn, Current_Total = rounded,
                                       Threshold = ''50 IP''\<rparr>]\<rparr>))"
    if "position player \<in> {''SP'', ''RP'', ''P''}" "p (PNum (of_int n)) = Some stats"
       "stats \<noteq> []"
    using that
    by (auto simp: evaluate_stats_def index_get_def split: sum.splits prod.splits)
  have bat_some: "(case ?ev of Inl e \<Rightarrow> st | Inr st' \<Rightarrow> st') =
                 (case check_minors_eligibility stats False of
                    Inl e \<Rightarrow> st
                  | Inr (is_eligible, current_total) \<Rightarrow>
                      if is_eligible then st
                      else (case py_round1 current_total of
                              Inl e \<Rightarrow> st
                            | Inr rounded \<Rightarrow>
                                st\<lparr>ineligible_players := ineligible_players st @
                                     [\<lparr>Player = FANTRAXNAME row, Position = position player,
                                       Team = tn, Current_Total = rounded,
                                       Threshold = ''130 AB''\<rparr>]\<rparr>))"
    if "position player \<notin> {''SP'', ''RP'', ''P''}" "b (PNum (of_int n)) = Some stats"
       "stats \<noteq> []"
    using that
    by (simp add: evaluate_stats_def index_get_def split: sum.splits prod.splits)
  show ?thesis
    unfolding pp using pit_none bat_none pit_some bat_some by simp
qed

theorem pitcher_classification_and_lookup_witness:
  "process_player (\<lambda>s. None) ''Team A''
     [\<lparr>Fantrax_ID = ''p1'', IDFANGRAPHS = PNum 7, FANTRAXNAME = ''Al''\<rparr>]
     [PNum 7 \<mapsto> [(''name'', PStr ''Albert''), (''career_AB'', PNum 10)]]
     [PNum 7 \<mapsto> [(''name'', PStr ''Albert''), (''career_IP'', PNum 60)]]
     \<lparr>player_id = ''p1'', status = ''MINORS'', position = ''RP''\<rparr> fim_init
   = fim_init\<lparr>ineligible_players :=
       [\<lparr>Player = ''Al'', Position = ''RP'', Team = ''Team A'', Current_Total = PNum 60,
         Threshold = ''50 IP''\<rparr>]\<rparr>
   \<and> process_player (\<lambda>s. None) ''Team A''
     [\<lparr>Fantrax_ID = ''p1'', IDFANGRAPHS = PNum 7, FANTRAXNAME = ''Al''\<rparr>]
     [PNum 7 \<mapsto> [(''name'', PStr ''Albert''), (''career_AB'', PNum 140)]]
     [PNum 7 \<mapsto> [(''name'', PStr ''Albert''), (''career_IP'', PNum 20)]]
     \<lparr>player_id = ''p1'', status = ''MINORS'', position = ''1B''\<rparr> fim_init
   = fim_init\<lparr>ineligible_players :=
       [\<lparr>Player = ''Al'', Position = ''1B'', Team = ''Team A'', Current_Total = PNum 140,
         Threshold = ''130 AB''\<rparr>]\<rparr>
   \<and> process_player (\<lambda>s. None) ''Team A''
     [\<lparr>Fantrax_ID = ''p1'', IDFANGRAPHS = PNum 7, FANTRAXNAME = ''Al''\<rparr>]
     [PNum 7 \<mapsto> [(''name'', PStr ''Albert''), (''career_AB'', PNum 900)]]
     Map.empty
     \<lparr>player_id = ''p1'', status = ''MINORS'', position = ''P''\<rparr> fim_init
   = fim_init\<lparr>missing_players := {''No stats for Al (FG ID: 7)''}\<rparr>
   \<and> process_player (\<lambda>s. None) ''Team A''
     [\<lparr>Fantrax_ID = ''p1'', IDFANGRAPHS = PNum 7, FANTRAXNAME = ''Al''\<rparr>]
     Map.empty
     [PNum 7 \<mapsto> [(''name'', PStr ''Albert''), (''career_IP'', PNum 900)]]
     \<lparr>player_id = ''p1'', status = ''MINORS'', position = ''1B''\<rparr> fim_init
   = fim_init\<lparr>missing_players := {''No stats for Al (FG ID: 7)''}\<rparr>"
proof -
  let ?ext = "\<lambda>s :: string. (None :: int option)"
  let ?row = "\<lparr>Fantrax_ID = ''p1'', IDFANGRAPHS = PNum 7, FANTRAXNAME = ''Al''\<rparr>"
  let ?rp = "\<lparr>player_id = ''p1'', status = ''MINORS'', position = ''RP''\<rparr>"
  let ?pp = "\<lparr>player_id = ''p1'', status = ''MINORS'', position = ''P''\<rparr>"
  let ?pb = "\<lparr>player_id = ''p1'', status = ''MINORS'', position = ''1B''\<rparr>"
  let ?ab10 = "[(''name'', PStr ''Albert''), (''career_AB'', PNum 10)]"
  let ?ip60 = "[(''name'', PStr ''Albert''), (''career_IP'', PNum 60)]"
  let ?ab140 = "[(''name'', PStr ''Albert''), (''career_AB'', PNum 140)]"
  let ?ip20 = "[(''name'', PStr ''Albert''), (''career_IP'', PNum 20)]"
  let ?ab900 = "[(''name'', PStr ''Albert''), (''career_AB'', PNum 900)]"
  let ?ip900 = "[(''name'', PStr ''Albert''), (''career_IP'', PNum 900)]"
  have s: "status ?rp = ''MINORS''" "status ?pp = ''MINORS''" "status ?pb = ''MINORS''"
    by simp_all
  have f: "filter (\<lambda>r. Fantrax_ID r = player_id ?rp) [?row] = ?row # []"
          "filter (\<lambda>r. Fantrax_ID r = player_id ?pp) [?row] = ?row # []"
          "filter (\<lambda>r. Fantrax_ID r = player_id ?pb) [?row] = ?row # []"
    by simp_all
  have a: "\<not> id_is_missing (IDFANGRAPHS ?row)" by (simp add: id_is_missing_def pd_isna_def)
  have n: "py_int ?ext (IDFANGRAPHS ?row) = Inr 7" by simp
  have c: "position ?rp \<in> {''SP'', ''RP'', ''P''}" "position ?pp \<in> {''SP'', ''RP'', ''P''}"
          "position ?pb \<notin> {''SP'', ''RP'', ''P''}"
    by simp_all
  have v1: "check_minors_eligibility ?ip60 True = Inr (False, PNum 60)"
    and v2: "check_minors_eligibility ?ab140 False = Inr (False, PNum 140)"
    by (simp_all add: check_minors_eligibility_def dict_get_def)
  have r1: "py_round1 (PNum 60) = Inr (PNum 60)" and r2: "py_round1 (PNum 140) = Inr (PNum 140)"
    by code_simp+
  have msg: "''No stats for '' @ FANTRAXNAME ?row @ '' (FG ID: '' @ str_int 7 @ '')''
               = ''No stats for Al (FG ID: 7)''"
    by (simp add: str_int_def)
  have i: "missing_players fim_init = {}" "ineligible_players fim_init = []"
    by (simp_all add: fim_init_def)
  have 1: "process_player ?ext ''Team A'' [?row] [PNum 7 \<mapsto> ?ab10] [PNum 7 \<mapsto> ?ip60] ?rp fim_init
      = fim_init\<lparr>ineligible_players :=
       [\<lparr>Player = ''Al'', Position = ''RP'', Team = ''Team A'', Current_Total = PNum 60,
         Threshold = ''50 IP''\<rparr>]\<rparr>"
    using pitcher_classification_and_lookup[OF s(1) f(1) a n,
        where p = "[PNum 7 \<mapsto> ?ip60]" and b = "[PNum 7 \<mapsto> ?ab10]" and stats = ?ip60
          and tn = "''Team A''" and st = fim_init]
      c(1) v1 r1 i
    by simp
  have 2: "process_player ?ext ''Team A'' [?row] [PNum 7 \<mapsto> ?ab140] [PNum 7 \<mapsto> ?ip20] ?pb fim_init
      = fim_init\<lparr>ineligible_players :=
       [\<lparr>Player = ''Al'', Position = ''1B'', Team = ''Team A'', Current_Total = PNum 140,
         Threshold = ''130 AB''\<rparr>]\<rparr>"
    using pitcher_classification_and_lookup[OF s(3) f(3) a n,
        where p = "[PNum 7 \<mapsto> ?ip20]" and b = "[PNum 7 \<mapsto> ?ab140]" and stats = ?ab140
          and tn = "''Team A''" and st = fim_init]
      c(3) v2 r2 i
    by simp
  have 3: "process_player ?ext ''Team A'' [?row] [PNum 7 \<mapsto> ?ab900] Map.empty ?pp fim_init
      = fim_init\<lparr>missing_players := {''No stats for Al (FG ID: 7)''}\<rparr>"
    using pitcher_classification_and_lookup[OF s(2) f(2) a n,
        where p = Map.empty and b = "[PNum 7 \<mapsto> ?ab900]" and stats = "[]"
          and tn = "''Team A''" and st = fim_init]
      c(2) i
    unfolding msg by simp
  have 4: "process_player ?ext ''Team A'' [?row] Map.empty [PNum 7 \<mapsto> ?ip900] ?pb fim_init
      = fim_init\<lparr>missing_players := {''No stats for Al (FG ID: 7)''}\<rparr>"
    using pitcher_classification_and_lookup[OF s(3) f(3) a n,
        where b = Map.empty and p = "[PNum 7 \<mapsto> ?ip900]" and stats = "[]"
          and tn = "''Team A''" and st = fim_init]
      c(3) i
    unfolding msg by simp
  from 1 2 3 4 show ?thesis by blast
qed

subsection \<open>Order of the violations\<close>

text \<open>
  Claim C7. \<open>find_ineligible_minors\<close> is a function of its inputs alone, so equal inputs
  give equal output. The returned list is the concatenation, over the teams in the order
  received, of the concatenation, over the team's items in the order received, of what
  each item yields; every item yields at most one record.
\<close>

theorem violations_follow_input_order:
  "fst (find_ineligible_minors ext
          (Some \<lparr>rosters_key = Some teams, other_keys = ks\<rparr>) m b p)
     = concat (map (team_violations ext m b p) teams)
   \<and> team_violations ext m b p (tid, \<lparr>teamName = tn, rosterItems = items\<rparr>)
     = concat (map (item_violations ext tn m b p) items)
   \<and> length (item_violations ext tn m b p pl) \<le> 1"
proof -
  have "fst (find_ineligible_minors ext
          (Some \<lparr>rosters_key = Some teams, other_keys = ks\<rparr>) m b p)
     = concat (map (team_violations ext m b p) teams)"
    by (simp add: find_ineligible_minors_def Let_def fold_process_team_violations
        fim_init_fields)
  moreover have "team_violations ext m b p (tid, \<lparr>teamName = tn, rosterItems = items\<rparr>)
     = concat (map (item_violations ext tn m b p) items)"
    by (simp add: team_violations_def)
  moreover have "length (item_violations ext tn m b p pl) \<le> 1"
    using process_player_outcome[of ext tn m b p pl] by (simp add: item_violations_def)
  ultimately show ?thesis by blast
qed

theorem violations_follow_input_order_witness:
  "fst (find_ineligible_minors (\<lambda>s. None)
     (Some \<lparr>rosters_key = Some
        [(''t2'', \<lparr>teamName = ''Bees'', rosterItems =
            [\<lparr>player_id = ''p2'', status = ''MINORS'', position = ''OF''\<rparr>,
             \<lparr>player_id = ''p1'', status = ''MINORS'', position = ''SP''\<rparr>]\<rparr>),
         (''t1'', \<lparr>teamName = ''Ants'', rosterItems =
            [\<lparr>player_id = ''p1'', status = ''MINORS'', position = ''SP''\<rparr>]\<rparr>)],
        other_keys = []\<rparr>)
     [\<lparr>Fantrax_ID = ''p1'', IDFANGRAPHS = PNum 7, FANTRAXNAME = ''Al''\<rparr>,
      \<lparr>Fantrax_ID = ''p2'', IDFANGRAPHS = PNum 8, FANTRAXNAME = ''Bo''\<rparr>]
     [PNum 8 \<mapsto> [(''name'', PStr ''b''), (''career_AB'', PNum 131)]]
     [PNum 7 \<mapsto> [(''name'', PStr ''a''), (''career_IP'', PNum 60)]])
   = [\<lparr>Player = ''Bo'', Position = ''OF'', Team = ''Bees'', Current_Total = PNum 131,
       Threshold = ''130 AB''\<rparr>,
      \<lparr>Player = ''Al'', Position = ''SP'', Team = ''Bees'', Current_Total = PNum 60,
       Threshold = ''50 IP''\<rparr>,
      \<lparr>Player = ''Al'', Position = ''SP'', Team = ''Ants'', Current_Total = PNum 60,
       Threshold = ''50 IP''\<rparr>]"
proof -
  let ?ext = "\<lambda>s :: string. (None :: int option)"
  let ?teams = "[(''t2'', \<lparr>teamName = ''Bees'', rosterItems =
            [\<lparr>player_id = ''p2'', status = ''MINORS'', position = ''OF''\<rparr>,
             \<lparr>player_id = ''p1'', status = ''MINORS'', position = ''SP''\<rparr>]\<rparr>),
         (''t1'', \<lparr>teamName = ''Ants'', rosterItems =
            [\<lparr>player_id = ''p1'', status = ''MINORS'', position = ''SP''\<rparr>]\<rparr>)]"
  let ?m = "[\<lparr>Fantrax_ID = ''p1'', IDFANGRAPHS = PNum 7, FANTRAXNAME = ''Al''\<rparr>,
      \<lparr>Fantrax_ID = ''p2'', IDFANGRAPHS = PNum 8, FANTRAXNAME = ''Bo''\<rparr>]"
  let ?b = "[PNum 8 \<mapsto> [(''name'', PStr ''b''), (''career_AB'', PNum 131)]]"
  let ?p = "[PNum 7 \<mapsto> [(''name'', PStr ''a''), (''career_IP'', PNum 60)]]"
  have "concat (map (team_violations ?ext ?m ?b ?p) ?teams)
   = [\<lparr>Player = ''Bo'', Position = ''OF'', Team = ''Bees'', Current_Total = PNum 131,
       Threshold = ''130 AB''\<rparr>,
      \<lparr>Player = ''Al'', Position = ''SP'', Team = ''Bees'', Current_Total = PNum 60,
       Threshold = ''50 IP''\<rparr>,
      \<lparr>Player = ''Al'', Position = ''SP'', Team = ''Ants'', Current_Total = PNum 60,
       Threshold = ''50 IP''\<rparr>]"
    by code_simp
  with violations_follow_input_order[where ext = ?ext and teams = ?teams and ks = "[]"
      and m = ?m and b = ?b and p = ?p]
  show ?thesis by simp
qed

subsection \<open>Diagnostics\<close>

text \<open>
  Claim C9. The messages of all items are gathered into one set, and what is shown after
  the loops is that set as a strictly increasing list (sorted, no message twice) below
  one warning line, or nothing when the set is empty; before it stand the errors of
  processing shown during the loops, in order. Gathering a message stops nothing: the
  returned list still holds what every item of every team yields. An item in the minors
  slot without a mapping row yields the message
  \<open>Missing FanGraphs ID mapping for Fantrax ID: ...\<close>, no violation and no error.
\<close>

theorem diagnostics_sorted_and_nonfatal:
  "snd (find_ineligible_minors ext
          (Some \<lparr>rosters_key = Some teams, other_keys = ks\<rparr>) m b p)
     = concat (map (team_errors ext m b p) teams)
       @ (if (\<Union>entry \<in> set teams. team_messages ext m b p entry) = {} then []
          else StWarning
                 ''Some players could not be processed due to missing FanGraphs IDs:''
               # map StText
                   (sorted_list_of_set (\<Union>entry \<in> set teams. team_messages ext m b p entry)))
   \<and> sorted (sorted_list_of_set (\<Union>entry \<in> set teams. team_messages ext m b p entry))
   \<and> distinct (sorted_list_of_set (\<Union>entry \<in> set teams. team_messages ext m b p entry))
   \<and> set (sorted_list_of_set (\<Union>entry \<in> set teams. team_messages ext m b p entry))
       = (\<Union>entry \<in> set teams. team_messages ext m b p entry)
   \<and> fst (find_ineligible_minors ext
          (Some \<lparr>rosters_key = Some teams, other_keys = ks\<rparr>) m b p)
       = concat (map (team_violations ext m b p) teams)
   \<and> (status pl = ''MINORS'' \<longrightarrow> (\<forall>r \<in> set m. Fantrax_ID r \<noteq> player_id pl) \<longrightarrow>
        item_messages ext tn m b p pl
          = {''Missing FanGraphs ID mapping for Fantrax ID: '' @ player_id pl}
        \<and> item_violations ext tn m b p pl = []
        \<and> item_errors ext tn m b p pl = [])"
proof -
  let ?D = "\<Union>entry \<in> set teams. team_messages ext m b p entry"
  let ?r = "find_ineligible_minors ext
              (Some \<lparr>rosters_key = Some teams, other_keys = ks\<rparr>) m b p"
  have 1: "snd ?r = concat (map (team_errors ext m b p) teams)
       @ (if ?D = {} then []
          else StWarning
                 ''Some players could not be processed due to missing FanGraphs IDs:''
               # map StText (sorted_list_of_set ?D))"
    by (simp add: find_ineligible_minors_def Let_def fold_process_team_missing
        fold_process_team_shown fim_init_fields show_missing_def)
  have fin: "finite ?D" by (rule finite_team_messages)
  have 2: "sorted (sorted_list_of_set ?D)" "distinct (sorted_list_of_set ?D)"
    by simp_all
  have 3: "set (sorted_list_of_set ?D) = ?D"
    using fin by simp
  have 4: "fst ?r = concat (map (team_violations ext m b p) teams)"
    by (simp add: find_ineligible_minors_def Let_def fold_process_team_violations
        fim_init_fields)
  have 5: "item_messages ext tn m b p pl
             = {''Missing FanGraphs ID mapping for Fantrax ID: '' @ player_id pl}
        \<and> item_violations ext tn m b p pl = []
        \<and> item_errors ext tn m b p pl = []"
    if "status pl = ''MINORS''" "\<forall>r \<in> set m. Fantrax_ID r \<noteq> player_id pl"
  proof -
    have "filter (\<lambda>r. Fantrax_ID r = player_id pl) m = []"
      using that(2) by (simp add: filter_empty_conv)
    then show ?thesis using that(1)
      by (simp add: item_messages_def item_violations_def item_errors_def
          process_player_def fim_init_def)
  qed
  from 1 2 3 4 5 show ?thesis by blast
qed

theorem diagnostics_sorted_and_nonfatal_witness:
  "find_ineligible_minors (\<lambda>s. None)
     (Some \<lparr>rosters_key = Some
        [(''t1'', \<lparr>teamName = ''Ants'', rosterItems =
            [\<lparr>player_id = ''p9'', status = ''MINORS'', position = ''OF''\<rparr>,
             \<lparr>player_id = ''p3'', status = ''MINORS'', position = ''C''\<rparr>,
             \<lparr>player_id = ''p4'', status = ''MINORS'', position = ''C''\<rparr>,
             \<lparr>player_id = ''p9'', status = ''MINORS'', position = ''OF''\<rparr>,
             \<lparr>player_id = ''p2'', status = ''MINORS'', position = ''OF''\<rparr>,
             \<lparr>player_id = ''p1'', status = ''MINORS'', position = ''SP''\<rparr>]\<rparr>)],
        other_keys = []\<rparr>)
     [\<lparr>Fantrax_ID = ''p1'', IDFANGRAPHS = PNum 7, FANTRAXNAME = ''Al''\<rparr>,
      \<lparr>Fantrax_ID = ''p2'', IDFANGRAPHS = PNum 8, FANTRAXNAME = ''Bo''\<rparr>,
      \<lparr>Fantrax_ID = ''p3'', IDFANGRAPHS = PNaN, FANTRAXNAME = ''Cy''\<rparr>,
      \<lparr>Fantrax_ID = ''p4'', IDFANGRAPHS = PInf True, FANTRAXNAME = ''Di''\<rparr>]
     Map.empty
     [PNum 7 \<mapsto> [(''name'', PStr ''a''), (''career_IP'', PNum (623 / 10))]]
   = ([\<lparr>Player = ''Al'', Position = ''SP'', Team = ''Ants'', Current_Total = PNum (623 / 10),
        Threshold = ''50 IP''\<rparr>],
      [StError ''Error processing player p4: cannot convert float infinity to integer'',
       StWarning ''Some players could not be processed due to missing FanGraphs IDs:'',
       StText ''Missing FanGraphs ID mapping for Fantrax ID: p9'',
       StText ''No FanGraphs ID for Fantrax ID: p3'',
       StText ''No stats for Bo (FG ID: 8)''])
   \<and> item_messages (\<lambda>s. None) ''Ants''
        [\<lparr>Fantrax_ID = ''p1'', IDFANGRAPHS = PNum 7, FANTRAXNAME = ''Al''\<rparr>,
         \<lparr>Fantrax_ID = ''p2'', IDFANGRAPHS = PNum 8, FANTRAXNAME = ''Bo''\<rparr>,
         \<lparr>Fantrax_ID = ''p3'', IDFANGRAPHS = PNaN, FANTRAXNAME = ''Cy''\<rparr>,
         \<lparr>Fantrax_ID = ''p4'', IDFANGRAPHS = PInf True, FANTRAXNAME = ''Di''\<rparr>]
        Map.empty
        [PNum 7 \<mapsto> [(''name'', PStr ''a''), (''career_IP'', PNum (623 / 10))]]
        \<lparr>player_id = ''p9'', status = ''MINORS'', position = ''OF''\<rparr>
      = {''Missing FanGraphs ID mapping for Fantrax ID: p9''}"
proof -
  let ?ext = "\<lambda>s :: string. (None :: int option)"
  let ?teams = "[(''t1'', \<lparr>teamName = ''Ants'', rosterItems =
            [\<lparr>player_id = ''p9'', status = ''MINORS'', position = ''OF''\<rparr>,
             \<lparr>player_id = ''p3'', status = ''MINORS'', position = ''C''\<rparr>,
             \<lparr>player_id = ''p4'', status = ''MINORS'', position = ''C''\<rparr>,
             \<lparr>player_id = ''p9'', status = ''MINORS'', position = ''OF''\<rparr>,
             \<lparr>player_id = ''p2'', status = ''MINORS'', position = ''OF''\<rparr>,
             \<lparr>player_id = ''p1'', status = ''MINORS'', position = ''SP''\<rparr>]\<rparr>)]"
  let ?m = "[\<lparr>Fantrax_ID = ''p1'', IDFANGRAPHS = PNum 7, FANTRAXNAME = ''Al''\<rparr>,
      \<lparr>Fantrax_ID = ''p2'', IDFANGRAPHS = PNum 8, FANTRAXNAME = ''Bo''\<rparr>,
      \<lparr>Fantrax_ID = ''p3'', IDFANGRAPHS = PNaN, FANTRAXNAME = ''Cy''\<rparr>,
      \<lparr>Fantrax_ID = ''p4'', IDFANGRAPHS = PInf True, FANTRAXNAME = ''Di''\<rparr>]"
  let ?p = "[PNum 7 \<mapsto> [(''name'', PStr ''a''), (''career_IP'', PNum (623 / 10))]]"
  let ?pl = "\<lparr>player_id = ''p9'', status = ''MINORS'', position = ''OF''\<rparr>"
  let ?r = "find_ineligible_minors ?ext
              (Some \<lparr>rosters_key = Some ?teams, other_keys = []\<rparr>) ?m Map.empty ?p"
  let ?D = "\<Union>entry \<in> set ?teams. team_messages ?ext ?m Map.empty ?p entry"
  have v: "concat (map (team_violations ?ext ?m Map.empty ?p) ?teams)
     = [\<lparr>Player = ''Al'', Position = ''SP'', Team = ''Ants'', Current_Total = PNum (623 / 10),
        Threshold = ''50 IP''\<rparr>]"
    by code_simp
  have d: "concat (map (team_errors ?ext ?m Map.empty ?p) ?teams)
       @ (if ?D = {} then []
          else StWarning
                 ''Some players could not be processed due to missing FanGraphs IDs:''
               # map StText (sorted_list_of_set ?D))
     = [StError ''Error processing player p4: cannot convert float infinity to integer'',
       StWarning ''Some players could not be processed due to missing FanGraphs IDs:'',
       StText ''Missing FanGraphs ID mapping for Fantrax ID: p9'',
       StText ''No FanGraphs ID for Fantrax ID: p3'',
       StText ''No stats for Bo (FG ID: 8)'']"
    by code_simp
  have h1: "status ?pl = ''MINORS''" by simp
  have h2: "\<forall>r \<in> set ?m. Fantrax_ID r \<noteq> player_id ?pl" by simp
  note t = diagnostics_sorted_and_nonfatal[where ext = ?ext and teams = ?teams and ks = "[]"
      and m = ?m and b = Map.empty and p = ?p and pl = ?pl and tn = "''Ants''"]
  from t v have 1: "fst ?r = [\<lparr>Player = ''Al'', Position = ''SP'', Team = ''Ants'',
        Current_Total = PNum (623 / 10), Threshold = ''50 IP''\<rparr>]"
    by simp
  from t have "snd ?r = concat (map (team_errors ?ext ?m Map.empty ?p) ?teams)
       @ (if ?D = {} then []
          else StWarning
                 ''Some players could not be processed due to missing FanGraphs IDs:''
               # map StText (sorted_list_of_set ?D))"
    by blast
  with d have 2: "snd ?r
     = [StError ''Error processing player p4: cannot convert float infinity to integer'',
       StWarning ''Some players could not be processed due to missing FanGraphs IDs:'',
       StText ''Missing FanGraphs ID mapping for Fantrax ID: p9'',
       StText ''No FanGraphs ID for Fantrax ID: p3'',
       StText ''No stats for Bo (FG ID: 8)'']"
    by simp
  from t h1 h2 have 3: "item_messages ?ext ''Ants'' ?m Map.empty ?p ?pl
      = {''Missing FanGraphs ID mapping for Fantrax ID: '' @ player_id ?pl}"
    by blast
  from 1 2 have "?r = ([\<lparr>Player = ''Al'', Position = ''SP'', Team = ''Ants'',
        Current_Total = PNum (623 / 10), Threshold = ''50 IP''\<rparr>],
      [StError ''Error processing player p4: cannot convert float infinity to integer'',
       StWarning ''Some players could not be processed due to missing FanGraphs IDs:'',
       StText ''Missing FanGraphs ID mapping for Fantrax ID: p9'',
       StText ''No FanGraphs ID for Fantrax ID: p3'',
       StText ''No stats for Bo (FG ID: 8)''])"
    by (simp add: prod_eq_iff)
  with 3 show ?thesis by simp
qed

subsection \<open>Pagination\<close>

lemma store_players_ok:
  "\<forall>pl \<in> set ps. \<exists>kv. mk pl = Inr kv \<Longrightarrow>
   store_players mk ps idx = (idx ++ map_of (rev (stored_entries mk ps)), None)"
proof (induction ps arbitrary: idx)
  case Nil
  show ?case by (simp add: stored_entries_def)
next
  case (Cons pl ps)
  then obtain k v where kv: "mk pl = Inr (k, v)" by force
  have "store_players mk (pl # ps) idx = store_players mk ps (idx(k \<mapsto> v))"
    using kv by simp
  also have "\<dots> = (idx(k \<mapsto> v) ++ map_of (rev (stored_entries mk ps)), None)"
    using Cons by simp
  also have "idx(k \<mapsto> v) ++ map_of (rev (stored_entries mk ps))
               = idx ++ map_of (rev (stored_entries mk (pl # ps)))"
  proof -
    have "stored_entries mk (pl # ps) = (k, v) # stored_entries mk ps"
      using kv by (simp add: stored_entries_def)
    then have "map_of (rev (stored_entries mk (pl # ps)))
                 = [k \<mapsto> v] ++ map_of (rev (stored_entries mk ps))"
      by (simp add: map_of_append)
    moreover have "idx ++ ([k \<mapsto> v] ++ map_of (rev (stored_entries mk ps)))
                     = (idx ++ [k \<mapsto> v]) ++ map_of (rev (stored_entries mk ps))"
      by (rule map_add_assoc)
    moreover have "idx ++ [k \<mapsto> v] = idx(k \<mapsto> v)" by simp
    ultimately show ?thesis by simp
  qed
  finally show ?case .
qed

lemma fetch_pages_stops_at_first_empty_page:
  assumes "0 < total_pages"
    and "\<forall>i. page \<le> i \<and> i < k \<longrightarrow>
           page_players (get i) \<noteq> [] \<and> (\<forall>pl \<in> set (page_players (get i)). \<exists>kv. mk pl = Inr kv)"
    and "page \<le> k"
    and "page_players (get k) = []"
  shows "\<exists>ui. fetch_pages mk kind total_pages get page idx =
           Some (idx ++ map_of (rev (concat (map (\<lambda>i. stored_entries mk (page_players (get i)))
                                              [page..<k]))), ui)"
  using assms(2,3)
proof (induction "k - page" arbitrary: page idx)
  case 0
  then have "page = k" by simp
  then show ?case using assms(4)
    by (subst fetch_pages.simps)
       (auto simp: page_players_def split: http_response.splits option.splits)
next
  case (Suc d)
  then have lt: "page < k" by simp
  let ?ps = "page_players (get page)"
  have ne: "?ps \<noteq> []" and ok: "\<forall>pl \<in> set ?ps. \<exists>kv. mk pl = Inr kv"
    using Suc.prems(1) lt by auto
  from ne have g: "get page = JsonBody (Some ?ps)"
    by (auto simp: page_players_def split: http_response.splits option.splits)
  let ?idx' = "idx ++ map_of (rev (stored_entries mk ?ps))"
  have st: "store_players mk ?ps idx = (?idx', None)"
    using ok by (rule store_players_ok)
  have step: "fetch_pages mk kind total_pages get page idx
                = fetch_pages mk kind total_pages get (page + 1) ?idx'"
    using ne st assms(1) by (subst fetch_pages.simps, subst g) simp
  have "d = k - (page + 1)" using Suc.hyps(2) by simp
  moreover have "\<forall>i. page + 1 \<le> i \<and> i < k \<longrightarrow>
           page_players (get i) \<noteq> [] \<and> (\<forall>pl \<in> set (page_players (get i)). \<exists>kv. mk pl = Inr kv)"
  proof (intro allI impI)
    fix i assume "page + 1 \<le> i \<and> i < k"
    then have "page \<le> i \<and> i < k" by simp
    with Suc.prems(1) show "page_players (get i) \<noteq> []
        \<and> (\<forall>pl \<in> set (page_players (get i)). \<exists>kv. mk pl = Inr kv)"
      by blast
  qed
  moreover have "page + 1 \<le> k" using lt by simp
  ultimately obtain ui where
    "fetch_pages mk kind total_pages get (page + 1) ?idx' =
       Some (?idx' ++ map_of (rev (concat (map (\<lambda>i. stored_entries mk (page_players (get i)))
                                              [page + 1..<k]))), ui)"
    using Suc.hyps(1)[of "page + 1" ?idx'] by blast
  moreover have "[page..<k] = page # [page + 1..<k]"
    using lt by (simp add: upt_conv_Cons)
  ultimately show ?case
    using step by (simp add: map_of_append flip: map_add_assoc)
qed

text \<open>
  Claim C8. With a page estimate above 0 (see the lemma before), the loop stops at the
  first page without records or with a failed request, and the index is the records of
  the pages before it, a later record replacing an earlier one with the same id. The
  estimate is 0 when the estimate request finds no batting rows, and then the loop stops
  after the first page it stores: here the pitching source has two pages of records and
  an empty third page, the batting source has none, and the pitching index ends with the
  first page only, the id 2 of the second page missing, and a division error shown.
\<close>

theorem pitching_pagination_cut_short:
  "map_option (\<lambda>((batting_stats, pitching_stats), ui).
       (pitching_stats (PNum 1), pitching_stats (PNum 2), ui))
     (fetch_fangraphs_stats (JsonBody (Some []))
        (\<lambda>page. JsonBody (Some []))
        (\<lambda>page.
           if page = 1 then
             JsonBody (Some [[(''playerid'', PNum 1), (''Name'', PStr ''A''), (''IP'', PNum 10)]])
           else if page = 2 then
             JsonBody (Some [[(''playerid'', PNum 2), (''Name'', PStr ''B''), (''IP'', PNum 60)]])
           else JsonBody (Some [])))
   = Some (Some [(''name'', PStr ''A''), (''career_IP'', PNum 10)],
           None,
           [StError ''Error fetching pitching stats page 2: division by zero''])"
  by code_simp

subsection \<open>The run after the roster fetch\<close>

lemma main_aborts_on_fetch_error:
  "main ext stats (Inl e) id_mapping =
     [StError (''Error fetching Fantrax rosters: '' @ str_error e),
      StError ''Failed to fetch rosters'']"
  by (cases stats) (simp add: main_def fetch_fantrax_rosters_def rosters_falsy_def)

lemma find_ineligible_minors_without_key:
  "find_ineligible_minors ext (Some \<lparr>rosters_key = None, other_keys = ks\<rparr>) m b p
     = ([], [StError ''Invalid roster data received''])"
  by (simp add: find_ineligible_minors_def)

text \<open>
  Claim C3. A failed roster request ends the run with an error (the lemma above). A
  response that decodes to a dictionary without the key \<open>rosters\<close> does not: here the
  response holds the one key \<open>error\<close>; the run shows the error of
  \<open>find_ineligible_minors\<close>, goes on to the results section, and reports that no
  ineligible players were found.
\<close>

theorem malformed_roster_response_not_fatal:
  "main ext (Map.empty, Map.empty)
     (Inr \<lparr>rosters_key = None, other_keys = [''error'']\<rparr>)
     [\<lparr>Fantrax_ID = ''p1'', IDFANGRAPHS = PNum 7, FANTRAXNAME = ''Al''\<rparr>]
   = [StError ''Invalid roster data received'',
      StSubheader ''Analysis Results'',
      StSuccess ''No ineligible players found in minors slots!'',
      StMetric ''Ineligible Players'' 0,
      StMetric ''Pitchers'' 0,
      StMetric ''Batters'' 0]"
  by (simp add: main_def fetch_fantrax_rosters_def rosters_falsy_def
      find_ineligible_minors_def)

end
